theory Spec2Isabelle
  imports Complex_Main
begin

section \<open>JavaScript values\<close>

text \<open>
  The server receives and relays JSON. A JSON number is an IEEE double once parsed; the
  handlers only compare it with 0 and 1 and print it, so a finite double is modelled by the
  rational it denotes (the comparison of doubles is exact) and the two infinities, which
  \<^verbatim>\<open>JSON.parse\<close> produces for an overflowing literal, are kept apart. \<^verbatim>\<open>NaN\<close> never
  comes out of \<^verbatim>\<open>JSON.parse\<close>; it only arises from a conversion and is the \<open>None\<close>
  of \<open>to_number\<close> below. The value \<^verbatim>\<open>undefined\<close> of a missing property is the
  \<open>None\<close> of a \<open>json option\<close>.
\<close>

datatype number = NegInf | Fin rat | PosInf

datatype json =
    JNull
  | JBool bool
  | JNum number
  | JStr string
  | JArr "json list"
  | JObj "(string \<times> json) list"

fun num_less :: "number \<Rightarrow> number \<Rightarrow> bool" where
  "num_less (Fin a) (Fin b) = (a < b)"
| "num_less NegInf NegInf = False"
| "num_less NegInf _ = True"
| "num_less _ NegInf = False"
| "num_less PosInf _ = False"
| "num_less _ PosInf = True"

text \<open>Truthiness (\<^verbatim>\<open>!x\<close> is its negation): \<^verbatim>\<open>undefined\<close>, \<^verbatim>\<open>null\<close>, \<^verbatim>\<open>false\<close>,
  \<^verbatim>\<open>0\<close> and the empty string are falsy, every other value is truthy.\<close>

fun truthy :: "json option \<Rightarrow> bool" where
  "truthy None = False"
| "truthy (Some JNull) = False"
| "truthy (Some (JBool b)) = b"
| "truthy (Some (JNum n)) = (n \<noteq> Fin 0)"
| "truthy (Some (JStr s)) = (s \<noteq> [])"
| "truthy (Some (JArr xs)) = True"
| "truthy (Some (JObj kvs)) = True"

section \<open>The platform\<close>

text \<open>
  What the child process does is known to the server only through the events of its
  \<^verbatim>\<open>ChildProcess\<close> object: chunks on the two output streams, \<^verbatim>\<open>close\<close> with the exit code
  (\<^verbatim>\<open>null\<close> when a signal ended the process) and \<^verbatim>\<open>error\<close> when it could not be started.
\<close>

datatype proc_event =
    StdoutData string
  | StderrData string
  | Close "int option"
  | ErrorEvent string

datatype type_error =
    DestructureNullish
  | ReadPropertyOfNull string
  | NotAFunction string
  | CannotConvertToPrimitive

text \<open>
  The facilities of Node.js and of the host that the server calls are parameters of the
  model: the environment variable, the deployment directory, \<^verbatim>\<open>path.join\<close> (it depends on
  the platform), the clock, \<^verbatim>\<open>JSON.parse\<close> (\<open>Inl\<close> carries the message of the
  \<^verbatim>\<open>SyntaxError\<close>), the printing and reading of numbers, the messages of the engine's
  \<^verbatim>\<open>TypeError\<close>s, the behaviour of a spawned command (given the command, its arguments and
  the files it can read) and the failures of the file system calls: the message of the
  error when a path cannot be written, whether an existing path cannot be removed, and the
  message of the error when a directory cannot be read.
\<close>

record runtime =
  env_PYTHON_PATH :: "string option"
  dirname :: string
  path_join :: "string list \<Rightarrow> string"
  date_now :: nat
  JSON_parse :: "string \<Rightarrow> string + json"
  number_to_string :: "number \<Rightarrow> string"
  string_to_number :: "string \<Rightarrow> number option"
  type_error_message :: "type_error \<Rightarrow> string"
  child_process :: "string \<Rightarrow> json list \<Rightarrow> (string \<rightharpoonup> string) \<Rightarrow> proc_event list"
  write_error :: "string \<Rightarrow> string option"
  unlink_fails :: "string \<Rightarrow> bool"
  readdir_error :: "string \<Rightarrow> string"

text \<open>
  The state a request can change: the paths that exist, with their contents, the
  entries \<^verbatim>\<open>readdir\<close> returns for each directory, and the log of the commands started so far
  (the command and its argument list, in the order of the calls to \<^verbatim>\<open>spawn\<close>).
\<close>

record sys =
  files :: "string \<rightharpoonup> string"
  listing :: "string \<rightharpoonup> string list"
  spawned :: "(string \<times> json list) list"

definition PYTHON_SCRIPT :: "runtime \<Rightarrow> string" where
  "PYTHON_SCRIPT rt = path_join rt [dirname rt, ''predict.py'']"

definition MODEL_PATH :: "runtime \<Rightarrow> string" where
  "MODEL_PATH rt = path_join rt [dirname rt, ''hf_blackout_model.pkl'']"

definition FORECASTS_DIR :: "runtime \<Rightarrow> string" where
  "FORECASTS_DIR rt = path_join rt [dirname rt, ''forecasts'']"

section \<open>External process invocation\<close>

datatype 'a promise = Pending | Resolved 'a | Rejected string

record py_run =
  stdout :: string
  stderr :: string
  settled :: "json promise"

text \<open>A promise is settled once: a later \<^verbatim>\<open>resolve\<close> or \<^verbatim>\<open>reject\<close> has no effect.\<close>

definition resolve :: "json \<Rightarrow> py_run \<Rightarrow> py_run" where
  "resolve v r = (case settled r of Pending \<Rightarrow> r\<lparr>settled := Resolved v\<rparr> | _ \<Rightarrow> r)"

definition reject :: "string \<Rightarrow> py_run \<Rightarrow> py_run" where
  "reject m r = (case settled r of Pending \<Rightarrow> r\<lparr>settled := Rejected m\<rparr> | _ \<Rightarrow> r)"

text \<open>The four listeners \<^verbatim>\<open>executePython\<close> installs on the child process.\<close>

fun on_event :: "runtime \<Rightarrow> py_run \<Rightarrow> proc_event \<Rightarrow> py_run" where
  "on_event rt r (StdoutData d) = r\<lparr>stdout := stdout r @ d\<rparr>"
| "on_event rt r (StderrData d) = r\<lparr>stderr := stderr r @ d\<rparr>"
| "on_event rt r (Close code) =
     (if code \<noteq> Some 0 then reject (''Python script failed: '' @ stderr r) r
      else case JSON_parse rt (stdout r) of
             Inr result \<Rightarrow> resolve result r
           | Inl msg \<Rightarrow> reject (''Failed to parse Python output: '' @ msg) r)"
| "on_event rt r (ErrorEvent msg) = reject (''Failed to start Python: '' @ msg) r"

definition pythonPath :: "runtime \<Rightarrow> string" where
  "pythonPath rt =
     (case env_PYTHON_PATH rt of
        None \<Rightarrow> ''python''
      | Some p \<Rightarrow> if p = [] then ''python'' else p)"

definition listen :: "runtime \<Rightarrow> proc_event list \<Rightarrow> json promise" where
  "listen rt evs = settled (foldl (on_event rt) \<lparr>stdout = [], stderr = [], settled = Pending\<rparr> evs)"

text \<open>\<^verbatim>\<open>spawn(command, argv)\<close> starts the command, which is recorded, and gives the events
  of the child process.\<close>

definition spawn :: "runtime \<Rightarrow> sys \<Rightarrow> string \<Rightarrow> json list \<Rightarrow> proc_event list \<times> sys" where
  "spawn rt s command argv =
     (child_process rt command argv (files s), s\<lparr>spawned := spawned s @ [(command, argv)]\<rparr>)"

text \<open>
  \<^verbatim>\<open>executePython(args)\<close>: start the interpreter on the script with the arguments and
  settle the promise from the events. A promise that stays \<open>Pending\<close> is a process that
  never closes: the awaiting handler never resumes.
\<close>

definition executePython :: "runtime \<Rightarrow> sys \<Rightarrow> json list \<Rightarrow> json promise \<times> sys" where
  "executePython rt s args =
     (case spawn rt s (pythonPath rt) (JStr (PYTHON_SCRIPT rt) # args) of
        (python, s') \<Rightarrow> (listen rt python, s'))"

text \<open>What the process wrote on a stream, chunk after chunk.\<close>

fun is_output :: "proc_event \<Rightarrow> bool" where
  "is_output (StdoutData d) = True"
| "is_output (StderrData d) = True"
| "is_output _ = False"

fun stdout_of :: "proc_event list \<Rightarrow> string" where
  "stdout_of [] = []"
| "stdout_of (StdoutData d # evs) = d @ stdout_of evs"
| "stdout_of (_ # evs) = stdout_of evs"

fun stderr_of :: "proc_event list \<Rightarrow> string" where
  "stderr_of [] = []"
| "stderr_of (StderrData d # evs) = d @ stderr_of evs"
| "stderr_of (_ # evs) = stderr_of evs"

section \<open>Conversions\<close>

text \<open>
  \<^verbatim>\<open>ToString\<close>, as a template literal applies it. An array prints its elements separated
  by commas, \<^verbatim>\<open>null\<close> elements as the empty string. A plain object prints as
  \<^verbatim>\<open>[object Object]\<close> through \<^verbatim>\<open>Object.prototype.toString\<close>, unless a property of its own
  named \<^verbatim>\<open>toString\<close> hides that method: a JSON value is never callable, so the conversion
  throws. \<open>Inl\<close> carries the message of the thrown error.
\<close>

fun intercalate :: "string \<Rightarrow> string list \<Rightarrow> string" where
  "intercalate sep [] = []"
| "intercalate sep [x] = x"
| "intercalate sep (x # y # ys) = x @ sep @ intercalate sep (y # ys)"

fun to_string :: "runtime \<Rightarrow> json \<Rightarrow> string + string"
  and elems_to_string :: "runtime \<Rightarrow> json list \<Rightarrow> string + string list" where
  "to_string rt JNull = Inr ''null''"
| "to_string rt (JBool b) = Inr (if b then ''true'' else ''false'')"
| "to_string rt (JNum n) = Inr (number_to_string rt n)"
| "to_string rt (JStr s) = Inr s"
| "to_string rt (JArr xs) =
     (case elems_to_string rt xs of Inl e \<Rightarrow> Inl e | Inr ss \<Rightarrow> Inr (intercalate '','' ss))"
| "to_string rt (JObj kvs) =
     (if ''toString'' \<in> fst ` set kvs then Inl (type_error_message rt CannotConvertToPrimitive)
      else Inr ''[object Object]'')"
| "elems_to_string rt [] = Inr []"
| "elems_to_string rt (x # xs) =
     (case (if x = JNull then Inr [] else to_string rt x) of
        Inl e \<Rightarrow> Inl e
      | Inr s \<Rightarrow> (case elems_to_string rt xs of Inl e \<Rightarrow> Inl e | Inr ss \<Rightarrow> Inr (s # ss)))"

text \<open>The method call \<^verbatim>\<open>v.toString()\<close>: \<^verbatim>\<open>null\<close> has no properties, and an own property
  \<^verbatim>\<open>toString\<close> of an object is not a function.\<close>

fun method_toString :: "runtime \<Rightarrow> json \<Rightarrow> string + string" where
  "method_toString rt JNull = Inl (type_error_message rt (ReadPropertyOfNull ''toString''))"
| "method_toString rt (JObj kvs) =
     (if ''toString'' \<in> fst ` set kvs then Inl (type_error_message rt (NotAFunction ''toString''))
      else Inr ''[object Object]'')"
| "method_toString rt v = to_string rt v"

text \<open>\<^verbatim>\<open>ToNumber\<close>, as \<^verbatim>\<open><\<close> and \<^verbatim>\<open>>\<close> apply it when the other operand is a number;
  \<open>None\<close> is \<^verbatim>\<open>NaN\<close>.\<close>

fun to_number :: "runtime \<Rightarrow> json \<Rightarrow> string + number option" where
  "to_number rt JNull = Inr (Some (Fin 0))"
| "to_number rt (JBool b) = Inr (Some (Fin (if b then 1 else 0)))"
| "to_number rt (JNum n) = Inr (Some n)"
| "to_number rt (JStr s) = Inr (string_to_number rt s)"
| "to_number rt v =
     (case to_string rt v of Inl e \<Rightarrow> Inl e | Inr s \<Rightarrow> Inr (string_to_number rt s))"

text \<open>\<^verbatim>\<open>v < n\<close> and \<^verbatim>\<open>v > n\<close> for a number \<open>n\<close>: false when \<open>v\<close> converts to \<^verbatim>\<open>NaN\<close>.\<close>

definition js_lt :: "runtime \<Rightarrow> json \<Rightarrow> number \<Rightarrow> string + bool" where
  "js_lt rt v n =
     (case to_number rt v of
        Inl e \<Rightarrow> Inl e
      | Inr None \<Rightarrow> Inr False
      | Inr (Some x) \<Rightarrow> Inr (num_less x n))"

definition js_gt :: "runtime \<Rightarrow> json \<Rightarrow> number \<Rightarrow> string + bool" where
  "js_gt rt v n =
     (case to_number rt v of
        Inl e \<Rightarrow> Inl e
      | Inr None \<Rightarrow> Inr False
      | Inr (Some x) \<Rightarrow> Inr (num_less n x))"

text \<open>
  Reading a property of a parsed JSON value, for the names the handlers read
  (\<^verbatim>\<open>datetime\<close>, \<^verbatim>\<open>flare_probability\<close>, \<^verbatim>\<open>forecasts\<close>, \<^verbatim>\<open>success\<close>): none of them is
  inherited from a prototype, so only an object can have one; reading from \<^verbatim>\<open>null\<close>
  throws. The list of a \<open>JObj\<close> is the object's own properties, each key once.
\<close>

fun get_prop :: "runtime \<Rightarrow> json \<Rightarrow> string \<Rightarrow> string + json option" where
  "get_prop rt JNull k = Inl (type_error_message rt (ReadPropertyOfNull k))"
| "get_prop rt (JObj kvs) k = Inr (map_of kvs k)"
| "get_prop rt v k = Inr None"

text \<open>\<^verbatim>\<open>const { k } = req.body\<close>: the body is \<^verbatim>\<open>undefined\<close> (\<open>None\<close>) when no parser
  filled it.\<close>

fun destructure :: "runtime \<Rightarrow> json option \<Rightarrow> string \<Rightarrow> string + json option" where
  "destructure rt None k = Inl (type_error_message rt DestructureNullish)"
| "destructure rt (Some JNull) k = Inl (type_error_message rt DestructureNullish)"
| "destructure rt (Some v) k = get_prop rt v k"

fun isArray :: "json option \<Rightarrow> bool" where
  "isArray (Some (JArr xs)) = True"
| "isArray _ = False"

fun elements :: "json option \<Rightarrow> json list" where
  "elements (Some (JArr xs)) = xs"
| "elements _ = []"

text \<open>\<^verbatim>\<open>s.includes(sub)\<close> and \<^verbatim>\<open>s.endsWith(suf)\<close>.\<close>

fun includes_str :: "string \<Rightarrow> string \<Rightarrow> bool" where
  "includes_str [] sub = (sub = [])"
| "includes_str (c # cs) sub = (take (length sub) (c # cs) = sub \<or> includes_str cs sub)"

definition endsWith :: "string \<Rightarrow> string \<Rightarrow> bool" where
  "endsWith s suf = (length suf \<le> length s \<and> drop (length s - length suf) s = suf)"

section \<open>File system calls\<close>

definition fs_writeFile :: "runtime \<Rightarrow> sys \<Rightarrow> string \<Rightarrow> string \<Rightarrow> string + sys" where
  "fs_writeFile rt s p content =
     (case write_error rt p of
        Some e \<Rightarrow> Inl e
      | None \<Rightarrow> Inr (s\<lparr>files := (files s)(p \<mapsto> content)\<rparr>))"

definition fs_access :: "sys \<Rightarrow> string \<Rightarrow> bool" where
  "fs_access s p = (files s p \<noteq> None)"

text \<open>\<^verbatim>\<open>try { await fs.unlink(p) } catch (err) { console.error(...) }\<close>: a failure to remove
  the file is logged and otherwise ignored.\<close>

definition try_unlink :: "runtime \<Rightarrow> sys \<Rightarrow> string \<Rightarrow> sys" where
  "try_unlink rt s p =
     (if files s p = None \<or> unlink_fails rt p then s
      else s\<lparr>files := (files s)(p := None)\<rparr>)"

section \<open>Responses\<close>

record response =
  status :: nat
  body :: json

text \<open>\<^verbatim>\<open>res.status(code).json(v)\<close>, and \<^verbatim>\<open>res.json(v)\<close> with the default status.\<close>

definition status_json :: "nat \<Rightarrow> json \<Rightarrow> response" where
  "status_json code v = \<lparr>status = code, body = v\<rparr>"

definition res_json :: "json \<Rightarrow> response" where
  "res_json v = status_json 200 v"

definition failure :: "string \<Rightarrow> json" where
  "failure msg = JObj [(''success'', JBool False), (''error'', JStr msg)]"

text \<open>
  The body of a handler's \<^verbatim>\<open>try\<close> block ends in one of three ways: it sent a response,
  it threw an error with a message, or it awaits a promise that never settles. The
  \<^verbatim>\<open>catch\<close> block of every handler answers a thrown error with status 500 and its message;
  a handler that hangs sends nothing.
\<close>

datatype outcome = Sent response | Thrown string | Hung

fun catch_all :: "outcome \<times> sys \<Rightarrow> response option \<times> sys" where
  "catch_all (Sent r, s) = (Some r, s)"
| "catch_all (Thrown msg, s) = (Some (status_json 500 (failure msg)), s)"
| "catch_all (Hung, s) = (None, s)"

fun await :: "json promise \<times> sys \<Rightarrow> (json \<Rightarrow> sys \<Rightarrow> outcome \<times> sys) \<Rightarrow> outcome \<times> sys" where
  "await (Pending, s) k = (Hung, s)"
| "await (Rejected msg, s) k = (Thrown msg, s)"
| "await (Resolved v, s) k = k v s"

text \<open>
  The last statements of the four prediction handlers are the same:
  \<^verbatim>\<open>if (!result.success) { return res.status(500).json(result); } res.json(result);\<close>
\<close>

definition send_result :: "runtime \<Rightarrow> json \<Rightarrow> outcome" where
  "send_result rt result =
     (case get_prop rt result ''success'' of
        Inl e \<Rightarrow> Thrown e
      | Inr success \<Rightarrow>
          if \<not> truthy success then Sent (status_json 500 result)
          else Sent (res_json result))"

section \<open>POST /predict/single\<close>

text \<open>The test \<^verbatim>\<open>!datetime || flare_probability === undefined\<close> is the first \<open>if\<close> of
  the \<open>Some\<close>/\<open>Some\<close> case and the whole of the other cases, where one of the two is
  \<^verbatim>\<open>undefined\<close>.\<close>

definition predict_single_try :: "runtime \<Rightarrow> sys \<Rightarrow> json option \<Rightarrow> outcome \<times> sys" where
  "predict_single_try rt s reqbody =
     (case destructure rt reqbody ''datetime'' of
        Inl e \<Rightarrow> (Thrown e, s)
      | Inr datetime \<Rightarrow>
     (case destructure rt reqbody ''flare_probability'' of
        Inl e \<Rightarrow> (Thrown e, s)
      | Inr flare_probability \<Rightarrow>
     (case (datetime, flare_probability) of
        (Some d, Some p) \<Rightarrow>
          if \<not> truthy (Some d) then
            (Sent (status_json 400
               (failure ''Missing required fields: datetime, flare_probability'')), s)
          else
            (case js_lt rt p (Fin 0) of
               Inl e \<Rightarrow> (Thrown e, s)
             | Inr below \<Rightarrow>
            (case (if below then Inr True else js_gt rt p (Fin 1)) of
               Inl e \<Rightarrow> (Thrown e, s)
             | Inr outside \<Rightarrow>
                 if outside then
                   (Sent (status_json 400
                      (failure ''flare_probability must be between 0 and 1'')), s)
                 else
                   (case method_toString rt p of
                      Inl e \<Rightarrow> (Thrown e, s)
                    | Inr ps \<Rightarrow>
                        await (executePython rt s [d, JStr ps])
                          (\<lambda>result s'. (send_result rt result, s')))))
      | _ \<Rightarrow>
          (Sent (status_json 400
             (failure ''Missing required fields: datetime, flare_probability'')), s))))"

definition predict_single :: "runtime \<Rightarrow> sys \<Rightarrow> json option \<Rightarrow> response option \<times> sys" where
  "predict_single rt s reqbody = catch_all (predict_single_try rt s reqbody)"

section \<open>POST /predict/batch\<close>

text \<open>
  The loop over the forecasts either returns a response from inside the handler, throws,
  or goes on with the text of the CSV file so far.
\<close>

datatype 'a control = Continue 'a | Return response | Throw string

definition nl :: string where
  "nl = [CHR 0x0A]"

fun csv_rows :: "runtime \<Rightarrow> string \<Rightarrow> json list \<Rightarrow> string control" where
  "csv_rows rt csvContent [] = Continue csvContent"
| "csv_rows rt csvContent (forecast # rest) =
     (case get_prop rt forecast ''datetime'' of
        Inl e \<Rightarrow> Throw e
      | Inr datetime \<Rightarrow>
     (case get_prop rt forecast ''flare_probability'' of
        Inl e \<Rightarrow> Throw e
      | Inr flare_probability \<Rightarrow>
     (case (datetime, flare_probability) of
        (Some d, Some p) \<Rightarrow>
          if \<not> truthy (Some d) then
            Return (status_json 400
              (failure ''Each forecast must have datetime and flare_probability''))
          else
            (case to_string rt d of
               Inl e \<Rightarrow> Throw e
             | Inr ds \<Rightarrow>
            (case to_string rt p of
               Inl e \<Rightarrow> Throw e
             | Inr ps \<Rightarrow> csv_rows rt (csvContent @ ds @ '','' @ ps @ nl) rest))
      | _ \<Rightarrow>
          Return (status_json 400
            (failure ''Each forecast must have datetime and flare_probability'')))))"

definition tempCsvPath :: "runtime \<Rightarrow> string" where
  "tempCsvPath rt =
     path_join rt [''uploads'', ''temp_'' @ number_to_string rt (Fin (of_nat (date_now rt))) @ ''.csv'']"

text \<open>The statements after the CSV file is written: the call, the removal of the file
  and the relay of the result. An error thrown by the call leaves the \<^verbatim>\<open>try\<close> block at
  once.\<close>

definition run_batch :: "runtime \<Rightarrow> sys \<Rightarrow> string \<Rightarrow> outcome \<times> sys" where
  "run_batch rt s p =
     await (executePython rt s [JStr ''batch'', JStr p])
       (\<lambda>result s'. (send_result rt result, try_unlink rt s' p))"

definition predict_batch_try :: "runtime \<Rightarrow> sys \<Rightarrow> json option \<Rightarrow> outcome \<times> sys" where
  "predict_batch_try rt s reqbody =
     (case destructure rt reqbody ''forecasts'' of
        Inl e \<Rightarrow> (Thrown e, s)
      | Inr forecasts \<Rightarrow>
          if \<not> truthy forecasts \<or> \<not> isArray forecasts \<or> length (elements forecasts) = 0 then
            (Sent (status_json 400 (failure ''Missing or invalid forecasts array'')), s)
          else
            (case csv_rows rt (''DateTime,flare_probability'' @ nl) (elements forecasts) of
               Return r \<Rightarrow> (Sent r, s)
             | Throw e \<Rightarrow> (Thrown e, s)
             | Continue csvContent \<Rightarrow>
                 (case fs_writeFile rt s (tempCsvPath rt) csvContent of
                    Inl e \<Rightarrow> (Thrown e, s)
                  | Inr s1 \<Rightarrow> run_batch rt s1 (tempCsvPath rt))))"

definition predict_batch :: "runtime \<Rightarrow> sys \<Rightarrow> json option \<Rightarrow> response option \<times> sys" where
  "predict_batch rt s reqbody = catch_all (predict_batch_try rt s reqbody)"

section \<open>POST /predict/upload\<close>

text \<open>The request carries the path under which the upload middleware stored the file,
  or nothing when no file was submitted.\<close>

definition predict_upload_try :: "runtime \<Rightarrow> sys \<Rightarrow> string option \<Rightarrow> outcome \<times> sys" where
  "predict_upload_try rt s file =
     (case file of
        None \<Rightarrow> (Sent (status_json 400 (failure ''No file uploaded'')), s)
      | Some p \<Rightarrow> run_batch rt s p)"

definition predict_upload :: "runtime \<Rightarrow> sys \<Rightarrow> string option \<Rightarrow> response option \<times> sys" where
  "predict_upload rt s file = catch_all (predict_upload_try rt s file)"

section \<open>GET /predict/csv/:filename\<close>

definition predict_csv_try :: "runtime \<Rightarrow> sys \<Rightarrow> string \<Rightarrow> outcome \<times> sys" where
  "predict_csv_try rt s filename =
     (if includes_str filename ''..'' \<or> includes_str filename ''/'' then
        (Sent (status_json 400 (failure ''Invalid filename'')), s)
      else
        (let csvPath = path_join rt [FORECASTS_DIR rt, filename]
         in if \<not> fs_access s csvPath then
              (Sent (status_json 404 (failure (''File not found: '' @ filename))), s)
            else
              await (executePython rt s [JStr ''batch'', JStr csvPath])
                (\<lambda>result s'. (send_result rt result, s'))))"

definition predict_csv :: "runtime \<Rightarrow> sys \<Rightarrow> string \<Rightarrow> response option \<times> sys" where
  "predict_csv rt s filename = catch_all (predict_csv_try rt s filename)"

section \<open>GET /forecasts\<close>

definition list_forecasts :: "runtime \<Rightarrow> sys \<Rightarrow> response option \<times> sys" where
  "list_forecasts rt s =
     (case listing s (FORECASTS_DIR rt) of
        None \<Rightarrow> (Some (status_json 500 (failure (readdir_error rt (FORECASTS_DIR rt)))), s)
      | Some entries \<Rightarrow>
          (let csvFiles = filter (\<lambda>f. endsWith f ''.csv'') entries
           in (Some (res_json (JObj
                 [(''success'', JBool True),
                  (''count'', JNum (Fin (of_nat (length csvFiles)))),
                  (''files'', JArr (map JStr csvFiles))])), s)))"

section \<open>Model information\<close>

text \<open>\<^verbatim>\<open>getModelInfo\<close> asks the predictor script for the information and falls back to a
  fixed description when the call is rejected. No route calls it.\<close>

definition getModelInfo :: "runtime \<Rightarrow> sys \<Rightarrow> json option \<times> sys" where
  "getModelInfo rt s =
     (case executePython rt s [JStr ''info''] of
        (Resolved result, s') \<Rightarrow> (Some result, s')
      | (Rejected msg, s') \<Rightarrow>
          (Some (JObj
             [(''version'', JStr ''1.0''),
              (''model_type'', JStr ''LogisticRegression''),
              (''features'', JNum (Fin 7)),
              (''note'', JStr ''Model info extraction requires Python script update'')]), s')
      | (Pending, s') \<Rightarrow> (None, s'))"

text \<open>The script \<^verbatim>\<open>GET /model/info\<close> writes: the lines of the template literal, each
  ended by a newline, with the path of the model file in the fifth.\<close>

definition pythonCode :: "runtime \<Rightarrow> string" where
  "pythonCode rt = concat (map (\<lambda>l. l @ nl)
     [[],
      ''import pickle'',
      ''import json'',
      [],
      ''with open('' @ [CHR 0x27] @ MODEL_PATH rt @ [CHR 0x27] @ '', 'rb') as f:'',
      ''    pkg = pickle.load(f)'',
      [],
      ''info = {'',
      ''    'version': pkg['version'],'',
      ''    'model_type': pkg['model_type'],'',
      ''    'training_date': pkg['training_date'],'',
      ''    'training_samples': pkg['training_samples'],'',
      ''    'test_samples': pkg['test_samples'],'',
      ''    'features': pkg['feature_names'],'',
      ''    'performance': pkg['performance'],'',
      ''    'solar_cycle_info': pkg['solar_cycle_info']'',
      ''}'',
      [],
      ''print(json.dumps(info))''])"

definition tempScript :: "runtime \<Rightarrow> string" where
  "tempScript rt =
     path_join rt [''uploads'', ''info_'' @ number_to_string rt (Fin (of_nat (date_now rt))) @ ''.py'']"

text \<open>
  The listeners of \<^verbatim>\<open>GET /model/info\<close>: the two streams are accumulated and the
  \<^verbatim>\<open>close\<close> listener removes the script and answers. There is no \<^verbatim>\<open>error\<close> listener:
  an \<^verbatim>\<open>error\<close> event is an uncaught exception that ends the server, and nothing is sent;
  nothing is sent either while the process has not closed.
\<close>

fun info_listen ::
  "runtime \<Rightarrow> sys \<Rightarrow> string \<Rightarrow> string \<Rightarrow> proc_event list \<Rightarrow> response option \<times> sys" where
  "info_listen rt s out err [] = (None, s)"
| "info_listen rt s out err (StdoutData d # evs) = info_listen rt s (out @ d) err evs"
| "info_listen rt s out err (StderrData d # evs) = info_listen rt s out (err @ d) evs"
| "info_listen rt s out err (ErrorEvent msg # evs) = (None, s)"
| "info_listen rt s out err (Close code # evs) =
     (let s' = try_unlink rt s (tempScript rt)
      in if code \<noteq> Some 0 then (Some (status_json 500 (failure err)), s')
         else (case JSON_parse rt out of
                 Inr info \<Rightarrow>
                   (Some (res_json (JObj [(''success'', JBool True), (''model'', info)])), s')
               | Inl e \<Rightarrow>
                   (Some (status_json 500 (failure ''Failed to parse model info'')), s')))"

definition model_info :: "runtime \<Rightarrow> sys \<Rightarrow> response option \<times> sys" where
  "model_info rt s =
     (case fs_writeFile rt s (tempScript rt) (pythonCode rt) of
        Inl e \<Rightarrow> (Some (status_json 500 (failure e)), s)
      | Inr s1 \<Rightarrow>
          (case spawn rt s1 ''python3'' [JStr (tempScript rt)] of
             (python, s2) \<Rightarrow> info_listen rt s2 [] [] python))"

section \<open>A deployment to run the handlers on\<close>

text \<open>
  A POSIX host with the server deployed under \<^verbatim>\<open>/app\<close> and the environment variable set
  to the interpreter of a virtual environment. The predictor answers a single prediction
  and a batch on an existing file with the object of the specification's example, written
  in two chunks, and fails on anything else. The parser and the printer of numbers know
  the texts and the numbers that occur in the examples.
\<close>

definition dq :: string where
  "dq = [CHR 0x22]"

definition ok_output :: string where
  "ok_output = ''{'' @ dq @ ''success'' @ dq @ '':true,'' @ dq @ ''blackout_probability'' @ dq
     @ '':0.42,'' @ dq @ ''risk_level'' @ dq @ '':'' @ dq @ ''MODERATE'' @ dq @ ''}''"

definition ok_result :: json where
  "ok_result = JObj
     [(''success'', JBool True),
      (''blackout_probability'', JNum (Fin (21 / 50))),
      (''risk_level'', JStr ''MODERATE'')]"

definition refused_output :: string where
  "refused_output = ''{'' @ dq @ ''success'' @ dq @ '':false,'' @ dq @ ''error'' @ dq
     @ '':'' @ dq @ ''empty file'' @ dq @ ''}''"

definition refused_result :: json where
  "refused_result = JObj [(''success'', JBool False), (''error'', JStr ''empty file'')]"

definition example_parse :: "string \<Rightarrow> string + json" where
  "example_parse text =
     (if text = ok_output then Inr ok_result
      else if text = refused_output then Inr refused_result
      else Inl ''Unexpected end of JSON input'')"

definition example_number_to_string :: "number \<Rightarrow> string" where
  "example_number_to_string n =
     (if n = Fin 0 then ''0''
      else if n = Fin (3 / 4) then ''0.75''
      else if n = Fin (3 / 2) then ''1.5''
      else if n = Fin 1769947200000 then ''1769947200000''
      else ''NaN'')"

definition example_process :: "string \<Rightarrow> json list \<Rightarrow> (string \<rightharpoonup> string) \<Rightarrow> proc_event list" where
  "example_process cmd argv fs =
     (case argv of
        [script, mode, JStr p] \<Rightarrow>
          if mode = JStr ''batch'' \<and> fs p = None then
            [StderrData ''No such file'', Close (Some 1)]
          else if mode = JStr ''batch'' \<and> fs p = Some [] then
            [StdoutData refused_output, Close (Some 0)]
          else
            [StdoutData (take 20 ok_output), StdoutData (drop 20 ok_output), Close (Some 0)]
      | _ \<Rightarrow> [StderrData ''usage: predict.py'', Close (Some 2)])"

definition example_rt :: runtime where
  "example_rt =
     \<lparr>env_PYTHON_PATH = Some ''/opt/venv/bin/python'',
      dirname = ''/app'',
      path_join = intercalate ''/'',
      date_now = 1769947200000,
      JSON_parse = example_parse,
      number_to_string = example_number_to_string,
      string_to_number = (\<lambda>text. None),
      type_error_message = (\<lambda>e. ''TypeError''),
      child_process = example_process,
      write_error = (\<lambda>p. None),
      unlink_fails = (\<lambda>p. False),
      readdir_error = (\<lambda>p. ''ENOENT: no such file or directory'')\<rparr>"

text \<open>The same deployment with a predictor that cannot load its model, with one that
  prints a warning on its standard error, nothing on its standard output, and exits with
  0, and with no environment variable and no interpreter installed.\<close>

definition failing_rt :: runtime where
  "failing_rt = example_rt
     \<lparr>child_process := (\<lambda>cmd argv fs. [StderrData ''model load failed'', Close (Some 1)])\<rparr>"

definition silent_rt :: runtime where
  "silent_rt = example_rt
     \<lparr>child_process := (\<lambda>cmd argv fs. [StderrData ''DeprecationWarning'', Close (Some 0)])\<rparr>"

definition missing_rt :: runtime where
  "missing_rt = example_rt
     \<lparr>env_PYTHON_PATH := None,
      child_process := (\<lambda>cmd argv fs. [ErrorEvent (''spawn '' @ cmd @ '' ENOENT''), Close (Some (- 2))])\<rparr>"

definition empty_sys :: sys where
  "empty_sys = \<lparr>files = Map.empty, listing = [''/app/forecasts'' \<mapsto> []], spawned = []\<rparr>"

definition single_request :: "rat \<Rightarrow> json option" where
  "single_request x = Some (JObj
     [(''datetime'', JStr ''2026-02-01 12:00:00''), (''flare_probability'', JNum (Fin x))])"

definition batch_request :: "rat \<Rightarrow> json option" where
  "batch_request x = Some (JObj [(''forecasts'', JArr
     [JObj [(''datetime'', JStr ''2026-02-01 12:00:00''), (''flare_probability'', JNum (Fin x))]])])"

section \<open>Lemmas: the listeners and the promise\<close>

lemma foldl_outputs:
  "list_all is_output outs \<Longrightarrow>
   foldl (on_event rt) r outs =
     r\<lparr>stdout := stdout r @ stdout_of outs, stderr := stderr r @ stderr_of outs\<rparr>"
proof (induction outs arbitrary: r)
  case Nil
  then show ?case by simp
next
  case (Cons ev outs)
  then show ?case by (cases ev) simp_all
qed

lemma listen_exit:
  assumes "list_all is_output outs"
  shows "listen rt (outs @ [Close code]) =
     (if code \<noteq> Some 0 then Rejected (''Python script failed: '' @ stderr_of outs)
      else case JSON_parse rt (stdout_of outs) of
             Inr result \<Rightarrow> Resolved result
           | Inl msg \<Rightarrow> Rejected (''Failed to parse Python output: '' @ msg))"
  using assms
  by (simp add: listen_def foldl_outputs reject_def resolve_def split: sum.splits)

lemma settled_once:
  "settled r \<noteq> Pending \<Longrightarrow> settled (foldl (on_event rt) r evs) = settled r"
proof (induction evs arbitrary: r)
  case Nil
  then show ?case by simp
next
  case (Cons ev evs)
  have "settled (on_event rt r ev) = settled r"
    using Cons.prems
    by (cases ev; cases "settled r") (simp_all add: reject_def resolve_def split: sum.splits)
  with Cons show ?case by simp
qed

lemma listen_error:
  "listen rt (ErrorEvent msg # evs) = Rejected (''Failed to start Python: '' @ msg)"
  by (simp add: listen_def reject_def settled_once)

lemma fst_executePython:
  "fst (executePython rt s args) =
     listen rt (fst (spawn rt s (pythonPath rt) (JStr (PYTHON_SCRIPT rt) # args)))"
  by (simp add: executePython_def split: prod.splits)

lemma executePython_spawned:
  "spawned (snd (executePython rt s args)) =
     spawned s @ [(pythonPath rt, JStr (PYTHON_SCRIPT rt) # args)]"
  by (simp add: executePython_def spawn_def)

lemma executePython_files: "files (snd (executePython rt s args)) = files s"
  by (simp add: executePython_def spawn_def)

section \<open>Lemmas: strings\<close>

lemma includes_str_iff: "includes_str s sub \<longleftrightarrow> (\<exists>a b. s = a @ sub @ b)"
proof (induction s)
  case Nil
  then show ?case by simp
next
  case (Cons c cs)
  have here: "take (length sub) (c # cs) = sub \<longleftrightarrow> (\<exists>b. c # cs = sub @ b)"
    by (metis append_eq_conv_conj)
  have split: "(\<exists>a b. c # cs = a @ sub @ b) \<longleftrightarrow>
      (\<exists>b. c # cs = sub @ b) \<or> (\<exists>a b. cs = a @ sub @ b)"
  proof
    assume "\<exists>a b. c # cs = a @ sub @ b"
    then obtain a b where ab: "c # cs = a @ sub @ b" by blast
    show "(\<exists>b. c # cs = sub @ b) \<or> (\<exists>a b. cs = a @ sub @ b)"
    proof (cases a)
      case Nil
      with ab show ?thesis by auto
    next
      case (Cons x a')
      with ab have "cs = a' @ sub @ b" by simp
      then show ?thesis by blast
    qed
  next
    assume "(\<exists>b. c # cs = sub @ b) \<or> (\<exists>a b. cs = a @ sub @ b)"
    then show "\<exists>a b. c # cs = a @ sub @ b"
    proof
      assume "\<exists>b. c # cs = sub @ b"
      then obtain b where "c # cs = [] @ sub @ b" by auto
      then show ?thesis by blast
    next
      assume "\<exists>a b. cs = a @ sub @ b"
      then obtain a b where "c # cs = (c # a) @ sub @ b" by auto
      then show ?thesis by blast
    qed
  qed
  show ?case using Cons here split by simp
qed

lemma endsWith_iff: "endsWith s suf \<longleftrightarrow> (\<exists>p. s = p @ suf)"
proof
  assume "endsWith s suf"
  then have "s = take (length s - length suf) s @ suf"
    by (metis append_take_drop_id endsWith_def)
  then show "\<exists>p. s = p @ suf" ..
next
  assume "\<exists>p. s = p @ suf"
  then show "endsWith s suf" by (auto simp: endsWith_def)
qed

lemma missing_message_names_field:
  "includes_str ''Missing required fields: datetime, flare_probability'' ''flare_probability''"
  by simp

lemma range_message_names_field:
  "includes_str ''flare_probability must be between 0 and 1'' ''flare_probability''"
  by simp

section \<open>Lemmas: the steps of the handlers\<close>

lemma await_resolved:
  "fst p = Resolved v \<Longrightarrow> await p k = k v (snd p)"
  by (cases p) simp

lemma await_rejected:
  "fst p = Rejected msg \<Longrightarrow> await p k = (Thrown msg, snd p)"
  by (cases p) simp

lemma snd_catch_all: "snd (catch_all (out, s)) = s"
  by (cases out) simp_all

lemma send_result_bool:
  "map_of obj ''success'' = Some (JBool b) \<Longrightarrow>
   send_result rt (JObj obj) =
     Sent \<lparr>status = (if b then 200 else 500), body = JObj obj\<rparr>"
  by (simp add: send_result_def res_json_def status_json_def)

lemma relay_status:
  "fst (catch_all (await p (\<lambda>result s'. (send_result rt result, s')))) = Some r \<Longrightarrow>
   status r = 200 \<or> status r = 500"
  by (cases p; cases "fst p")
     (auto simp: send_result_def status_json_def res_json_def split: sum.splits if_splits)

lemma predict_single_valid:
  assumes "map_of kvs ''datetime'' = Some d" and "truthy (Some d)"
    and "map_of kvs ''flare_probability'' = Some (JNum x)"
    and "\<not> num_less x (Fin 0)" and "\<not> num_less (Fin 1) x"
  shows "predict_single rt s (Some (JObj kvs)) =
     catch_all (await (executePython rt s [d, JStr (number_to_string rt x)])
       (\<lambda>result s'. (send_result rt result, s')))"
  using assms by (simp add: predict_single_def predict_single_try_def js_lt_def js_gt_def)

lemma predict_batch_valid:
  assumes "map_of kvs ''forecasts'' = Some (JArr fs)" and "fs \<noteq> []"
    and "csv_rows rt (''DateTime,flare_probability'' @ nl) fs = Continue csv"
    and "write_error rt (tempCsvPath rt) = None"
  shows "predict_batch rt s (Some (JObj kvs)) =
     catch_all (run_batch rt (s\<lparr>files := (files s)(tempCsvPath rt \<mapsto> csv)\<rparr>) (tempCsvPath rt))"
  using assms by (simp add: predict_batch_def predict_batch_try_def fs_writeFile_def)

lemma predict_csv_valid:
  assumes "\<not> includes_str f ''..''" and "\<not> includes_str f ''/''"
    and "fs_access s (path_join rt [FORECASTS_DIR rt, f])"
  shows "predict_csv rt s f =
     catch_all (await (executePython rt s [JStr ''batch'', JStr (path_join rt [FORECASTS_DIR rt, f])])
       (\<lambda>result s'. (send_result rt result, s')))"
  using assms by (simp add: predict_csv_def predict_csv_try_def)

lemma run_batch_rejected:
  assumes "fst (executePython rt s [JStr ''batch'', JStr p]) = Rejected msg"
  shows "fst (catch_all (run_batch rt s p)) = Some (status_json 500 (failure msg))"
    and "files (snd (catch_all (run_batch rt s p))) = files s"
  using assms
  by (simp_all add: run_batch_def await_rejected snd_catch_all executePython_files)

lemma run_batch_resolved:
  assumes "fst (executePython rt s [JStr ''batch'', JStr p]) = Resolved result"
    and "\<not> unlink_fails rt p"
  shows "files (snd (catch_all (run_batch rt s p))) p = None"
  using assms
  by (simp add: run_batch_def await_resolved snd_catch_all try_unlink_def executePython_files)

lemma csv_rows_numbers:
  assumes "\<forall>(d, x) \<in> set rows. d \<noteq> []"
  shows "csv_rows rt csvContent
           (map (\<lambda>(d, x). JObj [(''datetime'', JStr d), (''flare_probability'', JNum x)]) rows) =
         Continue (csvContent @ concat (map (\<lambda>(d, x). d @ '','' @ number_to_string rt x @ nl) rows))"
  using assms
proof (induction rows arbitrary: csvContent)
  case Nil
  then show ?case by simp
next
  case (Cons row rows)
  then show ?case by (cases row) simp
qed

text \<open>The definitions that evaluate the handlers on the example deployments.\<close>

lemmas ex_defs = example_rt_def failing_rt_def silent_rt_def missing_rt_def empty_sys_def
  spawn_def pythonPath_def PYTHON_SCRIPT_def example_process_def example_parse_def

lemmas run_defs = executePython_def listen_def resolve_def reject_def tempCsvPath_def
  example_number_to_string_def FORECASTS_DIR_def nl_def

section \<open>Removal of the temporary file\<close>

text \<open>
  Claim C1 says that after a batch or an upload request, whether the external process
  succeeds or fails, the temporary (respectively uploaded) file no longer exists. The
  file is removed when the call resolves and the removal itself succeeds
  (\<open>run_batch_resolved\<close>), and it is left untouched when the call is rejected
  (\<open>run_batch_rejected\<close>): the removal stands after the awaited call, inside the
  \<^verbatim>\<open>try\<close> block. On the deployment whose predictor exits with code 1, both handlers
  answer with status 500 and the file is still there afterwards.
\<close>

theorem temp_file_left_after_rejection:
  "fst (predict_batch failing_rt empty_sys (batch_request (3 / 4))) =
     Some \<lparr>status = 500,
           body = JObj [(''success'', JBool False),
                        (''error'', JStr ''Python script failed: model load failed'')]\<rparr>
   \<and> files (snd (predict_batch failing_rt empty_sys (batch_request (3 / 4))))
         ''uploads/temp_1769947200000.csv'' =
     Some (''DateTime,flare_probability'' @ nl @ ''2026-02-01 12:00:00,0.75'' @ nl)
   \<and> fst (predict_upload failing_rt (empty_sys\<lparr>files := [''uploads/3f2a'' \<mapsto> ''DateTime'']\<rparr>)
            (Some ''uploads/3f2a'')) =
     Some \<lparr>status = 500,
           body = JObj [(''success'', JBool False),
                        (''error'', JStr ''Python script failed: model load failed'')]\<rparr>
   \<and> files (snd (predict_upload failing_rt
                 (empty_sys\<lparr>files := [''uploads/3f2a'' \<mapsto> ''DateTime'']\<rparr>) (Some ''uploads/3f2a'')))
         ''uploads/3f2a'' = Some ''DateTime''"
  by (simp add: batch_request_def predict_batch_def predict_batch_try_def predict_upload_def
      predict_upload_try_def run_batch_def fs_writeFile_def status_json_def failure_def
      ex_defs run_defs)

section \<open>Validation of a batch\<close>

text \<open>
  Claim C2 says that a batch with an element whose \<^verbatim>\<open>flare_probability\<close> lies outside
  [0, 1] is rejected with a client error before the external process is invoked. The loop
  of the batch handler tests presence only (\<open>csv_rows_numbers\<close>: any number goes into
  the CSV text), while the single prediction tests the range. With the value 1.5 the
  handler starts the predictor on the temporary file and relays its result with status 200.
\<close>

theorem batch_out_of_range_accepted:
  "fst (predict_batch example_rt empty_sys (batch_request (3 / 2))) =
     Some \<lparr>status = 200, body = ok_result\<rparr>
   \<and> spawned (snd (predict_batch example_rt empty_sys (batch_request (3 / 2)))) =
     [(''/opt/venv/bin/python'',
       [JStr ''/app/predict.py'', JStr ''batch'', JStr ''uploads/temp_1769947200000.csv''])]"
  by (simp add: batch_request_def predict_batch_def predict_batch_try_def run_batch_def
      fs_writeFile_def try_unlink_def send_result_def ok_result_def status_json_def res_json_def
      ex_defs run_defs)

section \<open>Failures of the external process\<close>

text \<open>
  Claim C3, as amended. When the request of a single prediction is valid and the external
  process writes to its standard error and exits with a nonzero code, the response is
  HTTP 500 with the body \<^verbatim>\<open>{success: false, error: m}\<close> where \<^verbatim>\<open>m\<close> is the captured standard
  error text after the prefix \<^verbatim>\<open>Python script failed: \<close> that \<^verbatim>\<open>executePython\<close> puts before it.
\<close>

theorem single_exit_failure:
  assumes "map_of kvs ''datetime'' = Some d" and "truthy (Some d)"
    and "map_of kvs ''flare_probability'' = Some (JNum x)"
    and "\<not> num_less x (Fin 0)" and "\<not> num_less (Fin 1) x"
    and "fst (spawn rt s (pythonPath rt)
           [JStr (PYTHON_SCRIPT rt), d, JStr (number_to_string rt x)]) = outs @ [Close code]"
    and "list_all is_output outs" and "code \<noteq> Some 0"
  shows "fst (predict_single rt s (Some (JObj kvs))) =
     Some \<lparr>status = 500,
           body = JObj [(''success'', JBool False),
                        (''error'', JStr (''Python script failed: '' @ stderr_of outs))]\<rparr>"
proof -
  have "fst (executePython rt s [d, JStr (number_to_string rt x)]) =
      Rejected (''Python script failed: '' @ stderr_of outs)"
    using assms(6-8) by (simp add: fst_executePython listen_exit)
  then show ?thesis
    using assms(1-5)
    by (simp add: predict_single_valid await_rejected status_json_def failure_def)
qed

theorem single_exit_failure_witness:
  "fst (predict_single failing_rt empty_sys (single_request (3 / 4))) =
     Some \<lparr>status = 500,
           body = JObj [(''success'', JBool False),
                        (''error'', JStr ''Python script failed: model load failed'')]\<rparr>"
  using single_exit_failure [where rt = failing_rt and s = empty_sys
      and kvs = "[(''datetime'', JStr ''2026-02-01 12:00:00''),
                  (''flare_probability'', JNum (Fin (3 / 4)))]"
      and d = "JStr ''2026-02-01 12:00:00''" and x = "Fin (3 / 4)"
      and outs = "[StderrData ''model load failed'']" and code = "Some 1"]
  by (simp add: single_request_def ex_defs)

text \<open>
  The claim as stated, that the error message is the captured text exactly, fails: with the
  standard error text \<^verbatim>\<open>model load failed\<close> and exit code 1 the body is not
  \<^verbatim>\<open>{success: false, error: "model load failed"}\<close>.
\<close>

theorem stderr_not_exact_counterexample:
  "fst (spawn failing_rt empty_sys (pythonPath failing_rt)
         [JStr (PYTHON_SCRIPT failing_rt), JStr ''2026-02-01 12:00:00'', JStr ''0.75''])
     = [StderrData ''model load failed'', Close (Some 1)]
   \<and> fst (predict_single failing_rt empty_sys (single_request (3 / 4)))
     \<noteq> Some \<lparr>status = 500,
              body = JObj [(''success'', JBool False), (''error'', JStr ''model load failed'')]\<rparr>"
  by (simp add: single_request_def predict_single_def predict_single_try_def js_lt_def js_gt_def
      status_json_def failure_def ex_defs run_defs)

section \<open>Relaying the result\<close>

text \<open>
  Claim C4. In each of the four prediction operations (single, batch, upload, named file),
  when the request passes the operation's checks and the external process resolves with a
  JSON object whose \<^verbatim>\<open>success\<close> field is \<^verbatim>\<open>true\<close>, the response is that object with status
  200; when the field is \<^verbatim>\<open>false\<close>, it is that same object with status 500.
\<close>

theorem result_relayed:
  assumes "map_of obj ''success'' = Some (JBool b)"
  shows
    "(map_of kvs ''datetime'' = Some d \<and> truthy (Some d)
        \<and> map_of kvs ''flare_probability'' = Some (JNum x)
        \<and> \<not> num_less x (Fin 0) \<and> \<not> num_less (Fin 1) x
        \<and> fst (executePython rt s [d, JStr (number_to_string rt x)]) = Resolved (JObj obj)
      \<longrightarrow> fst (predict_single rt s (Some (JObj kvs)))
            = Some \<lparr>status = (if b then 200 else 500), body = JObj obj\<rparr>)
   \<and> (map_of req ''forecasts'' = Some (JArr fs) \<and> fs \<noteq> []
        \<and> csv_rows rt (''DateTime,flare_probability'' @ nl) fs = Continue csv
        \<and> write_error rt (tempCsvPath rt) = None
        \<and> fst (executePython rt (s\<lparr>files := (files s)(tempCsvPath rt \<mapsto> csv)\<rparr>)
                 [JStr ''batch'', JStr (tempCsvPath rt)]) = Resolved (JObj obj)
      \<longrightarrow> fst (predict_batch rt s (Some (JObj req)))
            = Some \<lparr>status = (if b then 200 else 500), body = JObj obj\<rparr>)
   \<and> (fst (executePython rt s [JStr ''batch'', JStr p]) = Resolved (JObj obj)
      \<longrightarrow> fst (predict_upload rt s (Some p))
            = Some \<lparr>status = (if b then 200 else 500), body = JObj obj\<rparr>)
   \<and> (\<not> includes_str f ''..'' \<and> \<not> includes_str f ''/''
        \<and> fs_access s (path_join rt [FORECASTS_DIR rt, f])
        \<and> fst (executePython rt s [JStr ''batch'', JStr (path_join rt [FORECASTS_DIR rt, f])])
            = Resolved (JObj obj)
      \<longrightarrow> fst (predict_csv rt s f)
            = Some \<lparr>status = (if b then 200 else 500), body = JObj obj\<rparr>)"
proof (intro conjI impI)
  assume "map_of kvs ''datetime'' = Some d \<and> truthy (Some d)
        \<and> map_of kvs ''flare_probability'' = Some (JNum x)
        \<and> \<not> num_less x (Fin 0) \<and> \<not> num_less (Fin 1) x
        \<and> fst (executePython rt s [d, JStr (number_to_string rt x)]) = Resolved (JObj obj)"
  then show "fst (predict_single rt s (Some (JObj kvs)))
            = Some \<lparr>status = (if b then 200 else 500), body = JObj obj\<rparr>"
    using assms by (simp add: predict_single_valid await_resolved send_result_bool)
next
  assume "map_of req ''forecasts'' = Some (JArr fs) \<and> fs \<noteq> []
        \<and> csv_rows rt (''DateTime,flare_probability'' @ nl) fs = Continue csv
        \<and> write_error rt (tempCsvPath rt) = None
        \<and> fst (executePython rt (s\<lparr>files := (files s)(tempCsvPath rt \<mapsto> csv)\<rparr>)
                 [JStr ''batch'', JStr (tempCsvPath rt)]) = Resolved (JObj obj)"
  then show "fst (predict_batch rt s (Some (JObj req)))
            = Some \<lparr>status = (if b then 200 else 500), body = JObj obj\<rparr>"
    using assms
    by (simp add: predict_batch_valid run_batch_def await_resolved send_result_bool)
next
  assume "fst (executePython rt s [JStr ''batch'', JStr p]) = Resolved (JObj obj)"
  then show "fst (predict_upload rt s (Some p))
            = Some \<lparr>status = (if b then 200 else 500), body = JObj obj\<rparr>"
    using assms
    by (simp add: predict_upload_def predict_upload_try_def run_batch_def await_resolved
        send_result_bool)
next
  assume "\<not> includes_str f ''..'' \<and> \<not> includes_str f ''/''
        \<and> fs_access s (path_join rt [FORECASTS_DIR rt, f])
        \<and> fst (executePython rt s [JStr ''batch'', JStr (path_join rt [FORECASTS_DIR rt, f])])
            = Resolved (JObj obj)"
  then show "fst (predict_csv rt s f)
            = Some \<lparr>status = (if b then 200 else 500), body = JObj obj\<rparr>"
    using assms by (simp add: predict_csv_valid await_resolved send_result_bool)
qed

theorem result_relayed_witness:
  "fst (predict_single example_rt empty_sys (single_request (3 / 4)))
     = Some \<lparr>status = 200, body = ok_result\<rparr>
   \<and> fst (predict_batch example_rt empty_sys (batch_request (3 / 4)))
     = Some \<lparr>status = 200, body = ok_result\<rparr>
   \<and> fst (predict_upload example_rt (empty_sys\<lparr>files := [''uploads/3f2a'' \<mapsto> []]\<rparr>)
            (Some ''uploads/3f2a''))
     = Some \<lparr>status = 500, body = refused_result\<rparr>
   \<and> fst (predict_csv example_rt
            (empty_sys\<lparr>files := [''/app/forecasts/solar_flare_forecast.csv'' \<mapsto> ''DateTime'']\<rparr>)
            ''solar_flare_forecast.csv'')
     = Some \<lparr>status = 200, body = ok_result\<rparr>"
proof -
  let ?ok = "[(''success'', JBool True),
        (''blackout_probability'', JNum (Fin (21 / 50))), (''risk_level'', JStr ''MODERATE'')]"
  let ?forecast = "JObj [(''datetime'', JStr ''2026-02-01 12:00:00''),
        (''flare_probability'', JNum (Fin (3 / 4)))]"
  have "fst (predict_single example_rt empty_sys (single_request (3 / 4)))
     = Some \<lparr>status = 200, body = ok_result\<rparr>"
    using result_relayed [where obj = ?ok and b = True and rt = example_rt and s = empty_sys
        and kvs = "[(''datetime'', JStr ''2026-02-01 12:00:00''),
                    (''flare_probability'', JNum (Fin (3 / 4)))]"
        and d = "JStr ''2026-02-01 12:00:00''" and x = "Fin (3 / 4)", THEN conjunct1]
    by (simp add: single_request_def ok_result_def ex_defs run_defs)
  moreover have "fst (predict_batch example_rt empty_sys (batch_request (3 / 4)))
     = Some \<lparr>status = 200, body = ok_result\<rparr>"
    using result_relayed [where obj = ?ok and b = True and rt = example_rt and s = empty_sys
        and req = "[(''forecasts'', JArr [?forecast])]" and fs = "[?forecast]"
        and csv = "''DateTime,flare_probability'' @ nl @ ''2026-02-01 12:00:00,0.75'' @ nl",
        THEN conjunct2, THEN conjunct1]
    by (simp add: batch_request_def ok_result_def ex_defs run_defs)
  moreover have "fst (predict_upload example_rt (empty_sys\<lparr>files := [''uploads/3f2a'' \<mapsto> []]\<rparr>)
            (Some ''uploads/3f2a''))
     = Some \<lparr>status = 500, body = refused_result\<rparr>"
    using result_relayed [where obj = "[(''success'', JBool False), (''error'', JStr ''empty file'')]"
        and b = False and rt = example_rt
        and s = "empty_sys\<lparr>files := [''uploads/3f2a'' \<mapsto> []]\<rparr>" and p = "''uploads/3f2a''",
        THEN conjunct2, THEN conjunct2, THEN conjunct1]
    by (simp add: refused_result_def ok_output_def refused_output_def dq_def ex_defs run_defs)
  moreover have "fst (predict_csv example_rt
            (empty_sys\<lparr>files := [''/app/forecasts/solar_flare_forecast.csv'' \<mapsto> ''DateTime'']\<rparr>)
            ''solar_flare_forecast.csv'')
     = Some \<lparr>status = 200, body = ok_result\<rparr>"
    using result_relayed [where obj = ?ok and b = True and rt = example_rt
        and s = "empty_sys\<lparr>files := [''/app/forecasts/solar_flare_forecast.csv'' \<mapsto> ''DateTime'']\<rparr>"
        and f = "''solar_flare_forecast.csv''",
        THEN conjunct2, THEN conjunct2, THEN conjunct2]
    by (simp add: ok_result_def ex_defs run_defs fs_access_def)
  ultimately show ?thesis by blast
qed

section \<open>Settling the promise\<close>

text \<open>
  Claim C5. When the child process writes its output and then closes with an exit code,
  \<^verbatim>\<open>executePython\<close> resolves with a value exactly when the code is zero and the accumulated
  standard output parses to that value; a nonzero code (or none) rejects with an error
  carrying the accumulated standard error, an output that does not parse rejects with the
  parse error, and a process that cannot be started rejects with a start failure.
\<close>

theorem executePython_settles:
  assumes "fst (spawn rt s (pythonPath rt) (JStr (PYTHON_SCRIPT rt) # args)) = evs"
  shows "(\<forall>outs code. evs = outs @ [Close code] \<and> list_all is_output outs \<longrightarrow>
            (\<forall>v. fst (executePython rt s args) = Resolved v \<longleftrightarrow>
                 code = Some 0 \<and> JSON_parse rt (stdout_of outs) = Inr v)
          \<and> (code \<noteq> Some 0 \<longrightarrow>
               fst (executePython rt s args) =
                 Rejected (''Python script failed: '' @ stderr_of outs))
          \<and> (\<forall>msg. code = Some 0 \<and> JSON_parse rt (stdout_of outs) = Inl msg \<longrightarrow>
               fst (executePython rt s args) =
                 Rejected (''Failed to parse Python output: '' @ msg)))
       \<and> (\<forall>msg rest. evs = ErrorEvent msg # rest \<longrightarrow>
            fst (executePython rt s args) = Rejected (''Failed to start Python: '' @ msg))"
proof -
  have run: "fst (executePython rt s args) = listen rt evs"
    using assms by (simp add: fst_executePython)
  show ?thesis
    unfolding run
    by (auto simp: listen_exit listen_error split: sum.splits)
qed

theorem executePython_settles_witness:
  "fst (executePython example_rt empty_sys [JStr ''2026-02-01 12:00:00'', JStr ''0.75''])
     = Resolved ok_result
   \<and> fst (executePython failing_rt empty_sys [JStr ''2026-02-01 12:00:00'', JStr ''0.75''])
     = Rejected ''Python script failed: model load failed''
   \<and> fst (executePython silent_rt empty_sys [JStr ''2026-02-01 12:00:00'', JStr ''0.75''])
     = Rejected ''Failed to parse Python output: Unexpected end of JSON input''
   \<and> fst (executePython missing_rt empty_sys [JStr ''2026-02-01 12:00:00'', JStr ''0.75''])
     = Rejected ''Failed to start Python: spawn python ENOENT''"
proof -
  let ?args = "[JStr ''2026-02-01 12:00:00'', JStr ''0.75'']"
  have "fst (executePython example_rt empty_sys ?args) = Resolved ok_result"
    using executePython_settles [OF refl, of example_rt empty_sys ?args,
      THEN conjunct1, THEN spec, THEN spec,
      of "[StdoutData (take 20 ok_output), StdoutData (drop 20 ok_output)]" "Some 0"]
    by (simp add: ex_defs)
  moreover have "fst (executePython failing_rt empty_sys ?args)
      = Rejected ''Python script failed: model load failed''"
    using executePython_settles [OF refl, of failing_rt empty_sys ?args,
      THEN conjunct1, THEN spec, THEN spec, of "[StderrData ''model load failed'']" "Some 1"]
    by (simp add: ex_defs)
  moreover have "fst (executePython silent_rt empty_sys ?args)
      = Rejected ''Failed to parse Python output: Unexpected end of JSON input''"
    using executePython_settles [OF refl, of silent_rt empty_sys ?args,
      THEN conjunct1, THEN spec, THEN spec, of "[StderrData ''DeprecationWarning'']" "Some 0"]
    by (simp add: ex_defs ok_output_def refused_output_def)
  moreover have "fst (executePython missing_rt empty_sys ?args)
      = Rejected ''Failed to start Python: spawn python ENOENT''"
    using executePython_settles [OF refl, of missing_rt empty_sys ?args,
      THEN conjunct2, THEN spec, THEN spec,
      of "''spawn python ENOENT''" "[Close (Some (- 2))]"]
    by (simp add: ex_defs)
  ultimately show ?thesis by blast
qed

section \<open>The checks on the name of a forecast file\<close>

text \<open>
  Claim C6. A filename that contains \<^verbatim>\<open>..\<close> or \<^verbatim>\<open>/\<close> is answered with HTTP 400 and
  \<^verbatim>\<open>{success: false, error}\<close>, whatever files exist; any other filename for which no file
  exists under the forecasts directory is answered with HTTP 404. Neither starts a process
  nor changes a file.
\<close>

theorem csv_filename_checked:
  "((\<exists>a b. f = a @ ''..'' @ b) \<or> (\<exists>a b. f = a @ ''/'' @ b) \<longrightarrow>
      predict_csv rt s f =
        (Some \<lparr>status = 400,
               body = JObj [(''success'', JBool False), (''error'', JStr ''Invalid filename'')]\<rparr>, s))
   \<and> (\<not> (\<exists>a b. f = a @ ''..'' @ b) \<and> \<not> (\<exists>a b. f = a @ ''/'' @ b)
        \<and> files s (path_join rt [FORECASTS_DIR rt, f]) = None \<longrightarrow>
      predict_csv rt s f =
        (Some \<lparr>status = 404,
               body = JObj [(''success'', JBool False),
                            (''error'', JStr (''File not found: '' @ f))]\<rparr>, s))"
  unfolding includes_str_iff [symmetric]
  by (simp add: predict_csv_def predict_csv_try_def fs_access_def status_json_def failure_def)

theorem csv_filename_checked_witness:
  "predict_csv example_rt (empty_sys\<lparr>files := [''/app/forecasts/../secret.csv'' \<mapsto> ''x'']\<rparr>)
       ''../secret.csv'' =
     (Some \<lparr>status = 400,
            body = JObj [(''success'', JBool False), (''error'', JStr ''Invalid filename'')]\<rparr>,
      empty_sys\<lparr>files := [''/app/forecasts/../secret.csv'' \<mapsto> ''x'']\<rparr>)
   \<and> predict_csv example_rt empty_sys ''missing.csv'' =
     (Some \<lparr>status = 404,
            body = JObj [(''success'', JBool False),
                         (''error'', JStr ''File not found: missing.csv'')]\<rparr>, empty_sys)"
proof -
  have "\<exists>a b. ''../secret.csv'' = a @ ''..'' @ b"
    by (rule exI [of _ "[]"], rule exI [of _ "''/secret.csv''"]) simp
  then have "predict_csv example_rt (empty_sys\<lparr>files := [''/app/forecasts/../secret.csv'' \<mapsto> ''x'']\<rparr>)
       ''../secret.csv'' =
     (Some \<lparr>status = 400,
            body = JObj [(''success'', JBool False), (''error'', JStr ''Invalid filename'')]\<rparr>,
      empty_sys\<lparr>files := [''/app/forecasts/../secret.csv'' \<mapsto> ''x'']\<rparr>)"
    using csv_filename_checked [where f = "''../secret.csv''" and rt = example_rt
        and s = "empty_sys\<lparr>files := [''/app/forecasts/../secret.csv'' \<mapsto> ''x'']\<rparr>",
        THEN conjunct1]
    by blast
  moreover have "\<not> includes_str ''missing.csv'' ''..''" and "\<not> includes_str ''missing.csv'' ''/''"
    by simp_all
  then have "predict_csv example_rt empty_sys ''missing.csv'' =
     (Some \<lparr>status = 404,
            body = JObj [(''success'', JBool False),
                         (''error'', JStr ''File not found: missing.csv'')]\<rparr>, empty_sys)"
    using csv_filename_checked [where f = "''missing.csv''" and rt = example_rt
        and s = empty_sys, THEN conjunct2]
    by (simp add: includes_str_iff ex_defs run_defs)
  ultimately show ?thesis by blast
qed

section \<open>The interpreter of the model information\<close>

text \<open>
  Claim C7 says that every invocation, that of the model metadata included, starts the
  interpreter selected by the environment variable. \<^verbatim>\<open>executePython\<close> does (lemma
  \<open>executePython_spawned\<close>); the handler of \<^verbatim>\<open>GET /model/info\<close> starts the fixed command
  \<^verbatim>\<open>python3\<close>, here with the variable set to another interpreter.
\<close>

theorem model_info_fixed_interpreter:
  "env_PYTHON_PATH example_rt = Some ''/opt/venv/bin/python''
   \<and> pythonPath example_rt = ''/opt/venv/bin/python''
   \<and> spawned (snd (model_info example_rt empty_sys)) =
     [(''python3'', [JStr ''uploads/info_1769947200000.py''])]"
  by (simp add: model_info_def fs_writeFile_def tempScript_def try_unlink_def ex_defs run_defs)

section \<open>Validation of a single prediction\<close>

text \<open>
  Claim C8. A single-prediction request whose \<^verbatim>\<open>flare_probability\<close> is a number below 0 or
  above 1 is answered with HTTP 400 and \<^verbatim>\<open>{success: false, error}\<close>, and the error message
  contains the name \<^verbatim>\<open>flare_probability\<close>; no process is started and no file changes.
\<close>

theorem single_out_of_range:
  assumes "map_of kvs ''flare_probability'' = Some (JNum x)"
    and "num_less x (Fin 0) \<or> num_less (Fin 1) x"
  shows "\<exists>msg. predict_single rt s (Some (JObj kvs)) =
           (Some \<lparr>status = 400,
                  body = JObj [(''success'', JBool False), (''error'', JStr msg)]\<rparr>, s)
         \<and> includes_str msg ''flare_probability''"
proof (cases "truthy (map_of kvs ''datetime'')")
  case True
  then obtain d where d: "map_of kvs ''datetime'' = Some d" "truthy (Some d)"
    by (cases "map_of kvs ''datetime''") auto
  have "predict_single rt s (Some (JObj kvs)) =
      (Some (status_json 400 (failure ''flare_probability must be between 0 and 1'')), s)"
    using assms d
    by (auto simp: predict_single_def predict_single_try_def js_lt_def js_gt_def)
  then show ?thesis
    using range_message_names_field by (simp add: status_json_def failure_def)
next
  case False
  have "predict_single rt s (Some (JObj kvs)) =
      (Some (status_json 400
         (failure ''Missing required fields: datetime, flare_probability'')), s)"
    using assms(1) False
    by (auto simp: predict_single_def predict_single_try_def split: option.splits)
  then show ?thesis
    using missing_message_names_field by (simp add: status_json_def failure_def)
qed

theorem single_out_of_range_witness:
  "\<exists>msg. predict_single example_rt empty_sys (single_request (3 / 2)) =
           (Some \<lparr>status = 400,
                  body = JObj [(''success'', JBool False), (''error'', JStr msg)]\<rparr>, empty_sys)
         \<and> includes_str msg ''flare_probability''"
  using single_out_of_range [where rt = example_rt and s = empty_sys and x = "Fin (3 / 2)"
      and kvs = "[(''datetime'', JStr ''2026-02-01 12:00:00''),
                  (''flare_probability'', JNum (Fin (3 / 2)))]"]
  by (simp add: single_request_def)

section \<open>The listing of the forecasts directory\<close>

text \<open>
  Claim C9. When the forecasts directory can be read, the listing answers
  \<^verbatim>\<open>{success: true, count, files}\<close> where \<^verbatim>\<open>files\<close> is the entries of the directory whose
  names end with \<^verbatim>\<open>.csv\<close>, in the order of the directory, and \<^verbatim>\<open>count\<close> is their number;
  on an empty directory it answers \<^verbatim>\<open>{success: true, count: 0, files: []}\<close>.
\<close>

theorem forecasts_listed:
  assumes "listing s (FORECASTS_DIR rt) = Some entries"
  shows "list_forecasts rt s =
     (Some \<lparr>status = 200,
            body = JObj
              [(''success'', JBool True),
               (''count'', JNum (Fin (of_nat (length (filter (\<lambda>f. \<exists>p. f = p @ ''.csv'') entries))))),
               (''files'', JArr (map JStr (filter (\<lambda>f. \<exists>p. f = p @ ''.csv'') entries)))]\<rparr>, s)
     \<and> (entries = [] \<longrightarrow>
          list_forecasts rt s =
            (Some \<lparr>status = 200,
                   body = JObj [(''success'', JBool True), (''count'', JNum (Fin 0)),
                                (''files'', JArr [])]\<rparr>, s))"
  using assms
  by (simp add: list_forecasts_def res_json_def status_json_def endsWith_iff Let_def)

theorem forecasts_listed_witness:
  "list_forecasts example_rt
       (empty_sys\<lparr>listing := [''/app/forecasts'' \<mapsto>
          [''march.csv'', ''notes.txt'', ''csv'', ''.csv'', ''april.csv.bak'', ''april.csv'']]\<rparr>) =
     (Some \<lparr>status = 200,
            body = JObj [(''success'', JBool True), (''count'', JNum (Fin 3)),
                         (''files'', JArr [JStr ''march.csv'', JStr ''.csv'', JStr ''april.csv''])]\<rparr>,
      empty_sys\<lparr>listing := [''/app/forecasts'' \<mapsto>
          [''march.csv'', ''notes.txt'', ''csv'', ''.csv'', ''april.csv.bak'', ''april.csv'']]\<rparr>)
   \<and> list_forecasts example_rt empty_sys =
     (Some \<lparr>status = 200,
            body = JObj [(''success'', JBool True), (''count'', JNum (Fin 0)),
                         (''files'', JArr [])]\<rparr>, empty_sys)"
proof -
  have "list_forecasts example_rt
       (empty_sys\<lparr>listing := [''/app/forecasts'' \<mapsto>
          [''march.csv'', ''notes.txt'', ''csv'', ''.csv'', ''april.csv.bak'', ''april.csv'']]\<rparr>) =
     (Some \<lparr>status = 200,
            body = JObj [(''success'', JBool True), (''count'', JNum (Fin 3)),
                         (''files'', JArr [JStr ''march.csv'', JStr ''.csv'', JStr ''april.csv''])]\<rparr>,
      empty_sys\<lparr>listing := [''/app/forecasts'' \<mapsto>
          [''march.csv'', ''notes.txt'', ''csv'', ''.csv'', ''april.csv.bak'', ''april.csv'']]\<rparr>)"
    using forecasts_listed [where rt = example_rt
        and s = "empty_sys\<lparr>listing := [''/app/forecasts'' \<mapsto>
          [''march.csv'', ''notes.txt'', ''csv'', ''.csv'', ''april.csv.bak'', ''april.csv'']]\<rparr>"
        and entries = "[''march.csv'', ''notes.txt'', ''csv'', ''.csv'', ''april.csv.bak'', ''april.csv'']",
        THEN conjunct1]
    by (simp add: ex_defs run_defs endsWith_iff [symmetric] endsWith_def)
  moreover have "list_forecasts example_rt empty_sys =
     (Some \<lparr>status = 200,
            body = JObj [(''success'', JBool True), (''count'', JNum (Fin 0)),
                         (''files'', JArr [])]\<rparr>, empty_sys)"
    using forecasts_listed [where rt = example_rt and s = empty_sys and entries = "[]",
        THEN conjunct2]
    by (simp add: ex_defs run_defs)
  ultimately show ?thesis by blast
qed

section \<open>The two presence tests of a single prediction\<close>

text \<open>
  Claim C10. The two required fields are tested differently. A request with a truthy
  \<^verbatim>\<open>datetime\<close> and \<^verbatim>\<open>flare_probability\<close> equal to 0 counts as complete: the predictor is
  started with the two values and the response is not a 400. A request whose
  \<^verbatim>\<open>datetime\<close> is the empty string is answered with HTTP 400 as a missing field.
\<close>

theorem presence_tests_differ:
  "(map_of kvs ''datetime'' = Some d \<and> truthy (Some d)
      \<and> map_of kvs ''flare_probability'' = Some (JNum (Fin 0)) \<longrightarrow>
        spawned (snd (predict_single rt s (Some (JObj kvs)))) =
          spawned s @ [(pythonPath rt,
             [JStr (PYTHON_SCRIPT rt), d, JStr (number_to_string rt (Fin 0))])]
      \<and> (\<forall>r. fst (predict_single rt s (Some (JObj kvs))) = Some r \<longrightarrow> status r \<noteq> 400))
   \<and> (map_of kvs ''datetime'' = Some (JStr []) \<longrightarrow>
        predict_single rt s (Some (JObj kvs)) =
          (Some \<lparr>status = 400,
                 body = JObj [(''success'', JBool False),
                    (''error'', JStr ''Missing required fields: datetime, flare_probability'')]\<rparr>, s))"
proof (intro conjI impI allI)
  assume a: "map_of kvs ''datetime'' = Some d \<and> truthy (Some d)
      \<and> map_of kvs ''flare_probability'' = Some (JNum (Fin 0))"
  then have run: "predict_single rt s (Some (JObj kvs)) =
      catch_all (await (executePython rt s [d, JStr (number_to_string rt (Fin 0))])
        (\<lambda>result s'. (send_result rt result, s')))"
    by (simp add: predict_single_valid)
  show "spawned (snd (predict_single rt s (Some (JObj kvs)))) =
          spawned s @ [(pythonPath rt,
             [JStr (PYTHON_SCRIPT rt), d, JStr (number_to_string rt (Fin 0))])]"
    unfolding run
    by (cases "listen rt (child_process rt (pythonPath rt)
          [JStr (PYTHON_SCRIPT rt), d, JStr (number_to_string rt (Fin 0))] (files s))")
       (simp_all add: executePython_def spawn_def snd_catch_all)
  fix r
  assume "fst (predict_single rt s (Some (JObj kvs))) = Some r"
  then show "status r \<noteq> 400"
    unfolding run using relay_status [of _ rt r] by fastforce
next
  assume "map_of kvs ''datetime'' = Some (JStr [])"
  then show "predict_single rt s (Some (JObj kvs)) =
          (Some \<lparr>status = 400,
                 body = JObj [(''success'', JBool False),
                    (''error'', JStr ''Missing required fields: datetime, flare_probability'')]\<rparr>, s)"
    by (simp add: predict_single_def predict_single_try_def status_json_def failure_def
        split: option.splits)
qed

theorem presence_tests_differ_witness:
  "spawned (snd (predict_single example_rt empty_sys (single_request 0))) =
     [(''/opt/venv/bin/python'',
       [JStr ''/app/predict.py'', JStr ''2026-02-01 12:00:00'', JStr ''0''])]
   \<and> predict_single example_rt empty_sys
       (Some (JObj [(''datetime'', JStr []), (''flare_probability'', JNum (Fin (3 / 4)))])) =
     (Some \<lparr>status = 400,
            body = JObj [(''success'', JBool False),
               (''error'', JStr ''Missing required fields: datetime, flare_probability'')]\<rparr>,
      empty_sys)"
proof -
  have "spawned (snd (predict_single example_rt empty_sys (single_request 0))) =
     [(''/opt/venv/bin/python'',
       [JStr ''/app/predict.py'', JStr ''2026-02-01 12:00:00'', JStr ''0''])]"
    using presence_tests_differ [where rt = example_rt and s = empty_sys
        and kvs = "[(''datetime'', JStr ''2026-02-01 12:00:00''),
                    (''flare_probability'', JNum (Fin 0))]"
        and d = "JStr ''2026-02-01 12:00:00''", THEN conjunct1]
    by (simp add: single_request_def ex_defs run_defs)
  moreover have "predict_single example_rt empty_sys
       (Some (JObj [(''datetime'', JStr []), (''flare_probability'', JNum (Fin (3 / 4)))])) =
     (Some \<lparr>status = 400,
            body = JObj [(''success'', JBool False),
               (''error'', JStr ''Missing required fields: datetime, flare_probability'')]\<rparr>,
      empty_sys)"
    using presence_tests_differ [where rt = example_rt and s = empty_sys
        and kvs = "[(''datetime'', JStr []), (''flare_probability'', JNum (Fin (3 / 4)))]",
        THEN conjunct2]
    by simp
  ultimately show ?thesis by blast
qed

end
